theory Spec2Isabelle
  imports Main "HOL-Library.List_Lexorder" "HOL-Library.Char_ord" "HOL-Library.Product_Lexorder"
begin

section \<open>Text operations of the source language\<close>

text \<open>
  main.py works on Python \<open>str\<close> values. They are modelled as \<open>string\<close>; a character
  beyond ASCII is the sequence of its UTF-8 bytes. The operations below are Python's
  \<open>str.split(sep)\<close>, \<open>str.strip()\<close>, \<open>str.lower()\<close>, \<open>sep.join(xs)\<close> and \<open>str(n)\<close> on
  ASCII text. Python also strips the Unicode spaces beyond ASCII and lowercases the
  letters beyond ASCII; \<open>py_strip\<close> and \<open>py_lower\<close> leave bytes from 0x80 on alone.
\<close>

fun py_split :: "char \<Rightarrow> string \<Rightarrow> string list" where
  "py_split sep [] = [[]]"
| "py_split sep (c # cs) =
     (if c = sep then [] # py_split sep cs
      else (case py_split sep cs of
              [] \<Rightarrow> [[c]]
            | p # ps \<Rightarrow> (c # p) # ps))"

definition isspace :: "char \<Rightarrow> bool" where
  "isspace c =
     (let n = (of_char c :: nat)
      in (9 \<le> n \<and> n \<le> 13) \<or> (28 \<le> n \<and> n \<le> 32))"

definition py_strip :: "string \<Rightarrow> string" where
  "py_strip s = rev (dropWhile isspace (rev (dropWhile isspace s)))"

definition lower_char :: "char \<Rightarrow> char" where
  "lower_char c =
     (case map_of (zip ''ABCDEFGHIJKLMNOPQRSTUVWXYZ'' ''abcdefghijklmnopqrstuvwxyz'') c of
        None \<Rightarrow> c
      | Some l \<Rightarrow> l)"

definition py_lower :: "string \<Rightarrow> string" where
  "py_lower s = map lower_char s"

fun py_join :: "string \<Rightarrow> string list \<Rightarrow> string" where
  "py_join sep [] = []"
| "py_join sep [x] = x"
| "py_join sep (x # y # ys) = x @ sep @ py_join sep (y # ys)"

definition digit_char :: "nat \<Rightarrow> char" where
  "digit_char d = ''0123456789'' ! d"

function str_nat :: "nat \<Rightarrow> string" where
  "str_nat n = (if n < 10 then [digit_char n] else str_nat (n div 10) @ [digit_char (n mod 10)])"
  by pat_completeness auto
termination
  by (relation "measure (\<lambda>n. n)") auto

declare str_nat.simps [simp del]


section \<open>The engine, as main.py sees it\<close>

text \<open>
  Modelled from the spec: the module services/github_ops, which main.py imports, is not
  among the source files. What its five operations return is taken from the interface
  list of the spec (getUserInfo, listRepositories, createRepository, syncProjectToRepo,
  createRepoAndSync). What they do is not modelled: the engine is a parameter of every
  function of main.py below, and each operation may return a value or raise.
\<close>

record user_info =
  login :: string

record repository =
  repo_name :: string
  repo_private :: bool
  repo_description :: "string option"
  html_url :: string

record sync_result =
  url :: string
  synced_files :: "string list"

text \<open>
  The exceptions main.py names in its handlers: \<open>GitHubError\<close>, \<open>ValueError\<close>, and any other
  instance of \<open>Exception\<close>. Each carries the text \<open>str(e)\<close>. What is raised outside the
  class \<open>Exception\<close> (\<open>KeyboardInterrupt\<close>, \<open>SystemExit\<close>) is not modelled.
\<close>

datatype exn = GitHubError string | ValueError string | OtherException string

fun str_exn :: "exn \<Rightarrow> string" where
  "str_exn (GitHubError m) = m"
| "str_exn (ValueError m) = m"
| "str_exn (OtherException m) = m"

datatype 'a outcome = Returns 'a | Raises exn

record engine =
  get_user_info :: "user_info outcome"
  list_repositories :: "repository list outcome"
  create_repository :: "string \<Rightarrow> string \<Rightarrow> bool \<Rightarrow> string option \<Rightarrow> repository outcome"
  sync_project_to_repo :: "string \<Rightarrow> string \<Rightarrow> string \<Rightarrow> string \<Rightarrow> string list outcome"
  create_repo_and_sync ::
    "string \<Rightarrow> string \<Rightarrow> bool \<Rightarrow> string \<Rightarrow> string option \<Rightarrow> sync_result option outcome"

text \<open>The calls a run of main.py makes to the engine, in order, with their arguments.\<close>

datatype call =
    GetUserInfo
  | ListRepositories
  | CreateRepository string string bool "string option"
  | SyncProjectToRepo string string string string
  | CreateRepoAndSync string string bool string "string option"

section \<open>Runs: printed lines, engine calls, and how the run ends\<close>

text \<open>
  A run of a function of main.py: the texts it passed to \<open>print\<close> (one entry per call of
  \<open>print\<close>), the engine calls it made, and whether it returned a value or let an exception
  out.
\<close>

record 'a run =
  printed :: "string list"
  called :: "call list"
  result :: "'a outcome"

definition ret :: "'a \<Rightarrow> 'a run" where
  "ret x = \<lparr>printed = [], called = [], result = Returns x\<rparr>"

definition raise :: "exn \<Rightarrow> 'a run" where
  "raise e = \<lparr>printed = [], called = [], result = Raises e\<rparr>"

definition print_line :: "string \<Rightarrow> unit run" where
  "print_line s = \<lparr>printed = [s], called = [], result = Returns ()\<rparr>"

definition invoke :: "call \<Rightarrow> 'a outcome \<Rightarrow> 'a run" where
  "invoke c r = \<lparr>printed = [], called = [c], result = r\<rparr>"

text \<open>Sequencing: the rest of the body runs only if the first part returned.\<close>

definition then_do :: "'a run \<Rightarrow> ('a \<Rightarrow> 'b run) \<Rightarrow> 'b run" where
  "then_do m f =
     (case result m of
        Raises e \<Rightarrow> \<lparr>printed = printed m, called = called m, result = Raises e\<rparr>
      | Returns x \<Rightarrow>
          \<lparr>printed = printed m @ printed (f x),
           called = called m @ called (f x),
           result = result (f x)\<rparr>)"

text \<open>
  \<open>try: body except ...\<close>: a handler is given for the exceptions the clauses catch
  (\<open>Some\<close>), the others propagate (\<open>None\<close>).
\<close>

definition try_except :: "'a run \<Rightarrow> (exn \<Rightarrow> 'a run option) \<Rightarrow> 'a run" where
  "try_except body handler =
     (case result body of
        Returns x \<Rightarrow> body
      | Raises e \<Rightarrow>
          (case handler e of
             None \<Rightarrow> body
           | Some h \<Rightarrow>
               \<lparr>printed = printed body @ printed h,
                called = called body @ called h,
                result = result h\<rparr>))"

section \<open>The agent tools (main.py, lines 20 to 118)\<close>

definition sq :: string where
  "sq = [CHR 0x27]"

text \<open>
  The two \<open>except\<close> clauses every tool ends with: \<open>except GitHubError as e\<close>, then
  \<open>except Exception as e\<close>.
\<close>

fun error_text :: "exn \<Rightarrow> string" where
  "error_text (GitHubError m) = ''GitHub Error: '' @ m"
| "error_text e = ''Unexpected error: '' @ str_exn e"

definition tool_except :: "exn \<Rightarrow> string run option" where
  "tool_except e = Some (ret (error_text e))"

text \<open>
  Each tool is its \<open>try\<close> block (the definition named \<open>_body\<close>) under these two clauses.
\<close>

definition list_my_github_repos_body :: "engine \<Rightarrow> string \<Rightarrow> string run" where
  "list_my_github_repos_body eng query =
     (then_do (invoke GetUserInfo (get_user_info eng)) (\<lambda>user.
      then_do (invoke ListRepositories (list_repositories eng)) (\<lambda>repos.
        let repo_names = map repo_name repos
        in if repo_names = []
           then ret (''Connected as '' @ sq @ login user @ sq @ '' but found 0 repositories.'')
           else ret (''SUCCESS! Connected as '' @ sq @ login user @ sq @ ''. Found ''
                     @ str_nat (length repo_names) @ '' repositories: ''
                     @ py_join '', '' repo_names))))"

definition list_my_github_repos :: "engine \<Rightarrow> string \<Rightarrow> string run" where
  "list_my_github_repos eng query = try_except (list_my_github_repos_body eng query) tool_except"

definition format_error :: string where
  "format_error = ''Error: Invalid format. Use: name|description|private(true/false)|org(optional)''"

definition create_github_repo_body :: "engine \<Rightarrow> string \<Rightarrow> string run" where
  "create_github_repo_body eng repo_info =
     (let parts = py_split (CHR ''|'') repo_info
      in if length parts < 3 then ret format_error
         else
           let name = py_strip (parts ! 0);
               description = (if length parts > 1 then py_strip (parts ! 1) else []);
               private = (if length parts > 2 then py_lower (py_strip (parts ! 2)) = ''true''
                          else True);
               org = (if length parts > 3 \<and> py_strip (parts ! 3) \<noteq> []
                      then Some (py_strip (parts ! 3)) else None)
           in then_do
                (invoke (CreateRepository name description private org)
                   (create_repository eng name description private org))
                (\<lambda>repo. ret (''SUCCESS! Repository '' @ sq @ name @ sq @ '' created: ''
                              @ html_url repo)))"

definition create_github_repo :: "engine \<Rightarrow> string \<Rightarrow> string run" where
  "create_github_repo eng repo_info = try_except (create_github_repo_body eng repo_info) tool_except"

definition sync_project_to_github_body :: "engine \<Rightarrow> string \<Rightarrow> string run" where
  "sync_project_to_github_body eng repo_info =
     (let parts = py_split (CHR ''|'') repo_info
      in if length parts < 1
         then ret ''Error: Invalid format. Use: owner/repo_name|branch(optional)''
         else
           let repo_path = py_split (CHR ''/'') (py_strip (parts ! 0))
           in (case repo_path of
                 [owner, repo] \<Rightarrow>
                   let branch = (if length parts > 1 \<and> py_strip (parts ! 1) \<noteq> []
                                 then py_strip (parts ! 1) else ''main'')
                   in then_do
                        (invoke (SyncProjectToRepo owner repo ''.'' branch)
                           (sync_project_to_repo eng owner repo ''.'' branch))
                        (\<lambda>synced. ret (''SUCCESS! Synced '' @ str_nat (length synced)
                                        @ '' files to '' @ owner @ ''/'' @ repo
                                        @ '' on branch '' @ branch))
               | _ \<Rightarrow> ret ''Error: Repository format should be owner/repo_name''))"

definition sync_project_to_github :: "engine \<Rightarrow> string \<Rightarrow> string run" where
  "sync_project_to_github eng repo_info = try_except (sync_project_to_github_body eng repo_info) tool_except"

definition create_repo_and_upload_project_body :: "engine \<Rightarrow> string \<Rightarrow> string run" where
  "create_repo_and_upload_project_body eng repo_info =
     (let parts = py_split (CHR ''|'') repo_info
      in if length parts < 3 then ret format_error
         else
           let name = py_strip (parts ! 0);
               description = (if length parts > 1 then py_strip (parts ! 1) else []);
               private = (if length parts > 2 then py_lower (py_strip (parts ! 2)) = ''true''
                          else True);
               org = (if length parts > 3 \<and> py_strip (parts ! 3) \<noteq> []
                      then Some (py_strip (parts ! 3)) else None)
           in then_do
                (invoke (CreateRepoAndSync name description private ''.'' org)
                   (create_repo_and_sync eng name description private ''.'' org))
                (\<lambda>res. case res of
                          Some r \<Rightarrow>
                            ret (''SUCCESS! Created repository and synced ''
                                 @ str_nat (length (synced_files r)) @ '' files: '' @ url r)
                        | None \<Rightarrow> ret ''Failed to create repository and sync files''))"

definition create_repo_and_upload_project :: "engine \<Rightarrow> string \<Rightarrow> string run" where
  "create_repo_and_upload_project eng repo_info = try_except (create_repo_and_upload_project_body eng repo_info) tool_except"


section \<open>The command handlers (main.py, lines 260 to 304)\<close>

text \<open>The glyphs of the printed messages, as their UTF-8 bytes.\<close>

definition check_mark :: string where
  "check_mark = [CHR 0xE2, CHR 0x9C, CHR 0x93]"

definition cross_mark :: string where
  "cross_mark = [CHR 0xE2, CHR 0x9C, CHR 0x97]"

definition bullet :: string where
  "bullet = [CHR 0xE2, CHR 0x80, CHR 0xA2]"

definition lock_glyph :: string where
  "lock_glyph = [CHR 0xF0, CHR 0x9F, CHR 0x94, CHR 0x92]"

definition globe_glyph :: string where
  "globe_glyph = [CHR 0xF0, CHR 0x9F, CHR 0x8C, CHR 0x8D]"

text \<open>
  The attributes of \<open>args\<close> each handler reads, after \<open>main\<close> has set \<open>args.private\<close>.
\<close>

record create_repo_args =
  cr_name :: string
  cr_description :: string
  cr_private :: bool
  cr_org :: "string option"

record sync_args =
  sy_repository :: string
  sy_path :: string
  sy_branch :: string

record create_and_sync_args =
  cs_name :: string
  cs_description :: string
  cs_private :: bool
  cs_path :: string
  cs_org :: "string option"

text \<open>\<open>except GitHubError as e: print(f"[cross] Error: {e}")\<close>; nothing else is caught.\<close>

fun cli_except :: "exn \<Rightarrow> unit run option" where
  "cli_except (GitHubError m) = Some (print_line (cross_mark @ '' Error: '' @ m))"
| "cli_except e = None"

text \<open>The clauses of \<open>cmd_sync_project\<close>: \<open>GitHubError\<close>, then \<open>ValueError\<close>.\<close>

fun sync_except :: "exn \<Rightarrow> unit run option" where
  "sync_except (GitHubError m) = Some (print_line (cross_mark @ '' Error: '' @ m))"
| "sync_except (ValueError m) =
     Some (print_line (cross_mark @ '' Error: Repository format should be owner/repo_name''))"
| "sync_except e = None"

definition repo_lines :: "repository \<Rightarrow> string list" where
  "repo_lines repo =
     (let visibility = (if repo_private repo then lock_glyph @ '' Private''
                        else globe_glyph @ '' Public'')
      in [''  '' @ bullet @ '' '' @ repo_name repo @ '' - '' @ visibility]
         @ (case repo_description repo of
              None \<Rightarrow> []
            | Some d \<Rightarrow> if d = [] then [] else [''    '' @ d]))"

definition print_lines :: "string list \<Rightarrow> unit run" where
  "print_lines ls = \<lparr>printed = ls, called = [], result = Returns ()\<rparr>"

definition cmd_list_repos :: "engine \<Rightarrow> unit run" where
  "cmd_list_repos eng =
     try_except
       (then_do (invoke GetUserInfo (get_user_info eng)) (\<lambda>user.
        then_do (invoke ListRepositories (list_repositories eng)) (\<lambda>repos.
          print_lines
            ([[CHR 0x0A] @ check_mark @ '' Connected as: '' @ login user,
              check_mark @ '' Found '' @ str_nat (length repos) @ '' repositories:'']
             @ concat (map repo_lines repos)
             @ [[]]))))
       cli_except"

definition cmd_create_repo :: "engine \<Rightarrow> create_repo_args \<Rightarrow> unit run" where
  "cmd_create_repo eng args =
     try_except
       (then_do
          (invoke (CreateRepository (cr_name args) (cr_description args) (cr_private args)
                     (cr_org args))
             (create_repository eng (cr_name args) (cr_description args) (cr_private args)
                (cr_org args)))
          (\<lambda>repo. print_line (check_mark @ '' Repository created: '' @ html_url repo)))
       cli_except"

text \<open>
  \<open>owner, repo = args.repository.split('/')\<close> raises \<open>ValueError\<close> unless the list has
  exactly two elements.
\<close>

fun unpack2 :: "string list \<Rightarrow> (string \<times> string) run" where
  "unpack2 [a, b] = ret (a, b)"
| "unpack2 [] = raise (ValueError ''not enough values to unpack (expected 2, got 0)'')"
| "unpack2 [a] = raise (ValueError ''not enough values to unpack (expected 2, got 1)'')"
| "unpack2 xs = raise (ValueError ''too many values to unpack (expected 2)'')"

definition cmd_sync_project :: "engine \<Rightarrow> sync_args \<Rightarrow> unit run" where
  "cmd_sync_project eng args =
     try_except
       (then_do (unpack2 (py_split (CHR ''/'') (sy_repository args))) (\<lambda>(owner, repo).
        then_do
          (invoke (SyncProjectToRepo owner repo (sy_path args) (sy_branch args))
             (sync_project_to_repo eng owner repo (sy_path args) (sy_branch args)))
          (\<lambda>synced. print_line (check_mark @ '' Synced '' @ str_nat (length synced)
                                 @ '' files to '' @ sy_repository args))))
       sync_except"

definition cmd_create_and_sync :: "engine \<Rightarrow> create_and_sync_args \<Rightarrow> unit run" where
  "cmd_create_and_sync eng args =
     try_except
       (then_do
          (invoke (CreateRepoAndSync (cs_name args) (cs_description args) (cs_private args)
                     (cs_path args) (cs_org args))
             (create_repo_and_sync eng (cs_name args) (cs_description args) (cs_private args)
                (cs_path args) (cs_org args)))
          (\<lambda>res. case res of
                    Some r \<Rightarrow> print_line (check_mark @ '' Success! Repository URL: '' @ url r)
                  | None \<Rightarrow>
                      print_line (cross_mark @ '' Failed to create repository and sync files'')))
       cli_except"

section \<open>The command line (main.py, lines 336 to 390)\<close>

text \<open>
  The command line as \<open>argparse\<close> reads it: the subcommand, its positional argument,
  and for each option whether it was given and with what value.
  \<^item> \<open>CreateRepo name description public private org\<close>: \<open>create-repo name\<close> with
    \<open>--description\<close>, \<open>--public\<close>, \<open>--private\<close>, \<open>--org\<close>;
  \<^item> \<open>Sync repository path branch\<close>: \<open>sync repository\<close> with \<open>--path\<close>, \<open>--branch\<close>;
  \<^item> \<open>CreateAndSync name description public private org path\<close>: \<open>create-and-sync name\<close>
    with \<open>--description\<close>, \<open>--public\<close>, \<open>--private\<close>, \<open>--org\<close>, \<open>--path\<close>.
  The \<open>agent\<close> subcommand and the bare invocation start the language-model agent and are
  not modelled.
\<close>

datatype command =
    ListRepos
  | CreateRepo string "string option" bool bool "string option"
  | Sync string "string option" "string option"
  | CreateAndSync string "string option" bool bool "string option" "string option"

text \<open>An option that was not given takes the \<open>default\<close> of its \<open>add_argument\<close>.\<close>

definition with_default :: "'a \<Rightarrow> 'a option \<Rightarrow> 'a" where
  "with_default d v = (case v of None \<Rightarrow> d | Some x \<Rightarrow> x)"

text \<open>
  \<open>--private\<close> is \<open>store_true\<close> with \<open>default=True\<close>: the attribute is \<open>True\<close> either way.
  \<open>main\<close> then sets it to \<open>False\<close> when \<open>--public\<close> was given.
\<close>

definition private_attr :: "bool \<Rightarrow> bool \<Rightarrow> bool" where
  "private_attr public private_given =
     (let private = (if private_given then True else True)
      in if public then False else private)"

definition main :: "engine \<Rightarrow> command \<Rightarrow> unit run" where
  "main eng cmd =
     (case cmd of
        ListRepos \<Rightarrow> cmd_list_repos eng
      | CreateRepo name description public private_given org \<Rightarrow>
          cmd_create_repo eng
            \<lparr>cr_name = name, cr_description = with_default [] description,
             cr_private = private_attr public private_given, cr_org = org\<rparr>
      | Sync repository path branch \<Rightarrow>
          cmd_sync_project eng
            \<lparr>sy_repository = repository, sy_path = with_default ''.'' path,
             sy_branch = with_default ''main'' branch\<rparr>
      | CreateAndSync name description public private_given org path \<Rightarrow>
          cmd_create_and_sync eng
            \<lparr>cs_name = name, cs_description = with_default [] description,
             cs_private = private_attr public private_given,
             cs_path = with_default ''.'' path, cs_org = org\<rparr>)"

definition banner :: "string list" where
  "banner =
     [''====================================='',
      ''  GitHub Automation System v1.0'',
      ''=====================================''
     ]"

text \<open>The script: the three banner lines, then \<open>main()\<close>.\<close>

definition script :: "engine \<Rightarrow> command \<Rightarrow> unit run" where
  "script eng cmd = then_do (print_lines banner) (\<lambda>_. main eng cmd)"

text \<open>
  The completion status of the interpreter: 0 when the script runs to its end, 1 when an
  exception leaves it. main.py never calls \<open>sys.exit\<close>.
\<close>

definition exit_status :: "'a run \<Rightarrow> nat" where
  "exit_status r = (case result r of Returns x \<Rightarrow> 0 | Raises e \<Rightarrow> 1)"

text \<open>
  Three engines for the examples: one whose every operation raises \<open>GitHubError\<close>, one
  whose every operation raises another exception, one whose every operation returns.
\<close>

definition failing_engine :: engine where
  "failing_engine =
     \<lparr>get_user_info = Raises (GitHubError ''Bad credentials''),
      list_repositories = Raises (GitHubError ''Bad credentials''),
      create_repository = (\<lambda>n d p org. Raises (GitHubError ''Bad credentials'')),
      sync_project_to_repo = (\<lambda>owner repo path branch. Raises (GitHubError ''Bad credentials'')),
      create_repo_and_sync = (\<lambda>n d p path org. Raises (GitHubError ''Bad credentials''))\<rparr>"

definition crashing_engine :: engine where
  "crashing_engine =
     \<lparr>get_user_info = Raises (OtherException ''Connection reset''),
      list_repositories = Raises (OtherException ''Connection reset''),
      create_repository = (\<lambda>n d p org. Raises (OtherException ''Connection reset'')),
      sync_project_to_repo = (\<lambda>owner repo path branch. Raises (OtherException ''Connection reset'')),
      create_repo_and_sync = (\<lambda>n d p path org. Raises (OtherException ''Connection reset''))\<rparr>"

definition working_engine :: engine where
  "working_engine =
     \<lparr>get_user_info = Returns \<lparr>login = ''octocat''\<rparr>,
      list_repositories = Returns [],
      create_repository = (\<lambda>n d p org.
        Returns \<lparr>repo_name = n, repo_private = p, repo_description = Some d,
                 html_url = ''https://github.com/octocat/'' @ n\<rparr>),
      sync_project_to_repo = (\<lambda>owner repo path branch. Returns [''main.py'']),
      create_repo_and_sync = (\<lambda>n d p path org.
        Returns (Some \<lparr>url = ''https://github.com/octocat/'' @ n,
                       synced_files = [''main.py'']\<rparr>))\<rparr>"


text \<open>
  What a failed command looks like from outside: after the banner the script printed one
  text, the error's message behind the cross and the word Error; the handler returned;
  the interpreter completed with status 0.
\<close>

definition diagnosed_status_zero :: "unit run \<Rightarrow> string \<Rightarrow> bool" where
  "diagnosed_status_zero r m =
     (printed r = banner @ [cross_mark @ '' Error: '' @ m] \<and> result r = Returns () \<and>
      exit_status r = 0)"

section \<open>The tree builder of the engine (spec, sections 3 and 4.3)\<close>

text \<open>
  Modelled from the spec: the engine (services/github_ops) is not among the source
  files, so the tree builder below follows the words of the spec, sections 3 (data
  model), 4.2 (ContentUploader) and 4.3 (TreeBuilder). The remote store computes the
  addresses; the two address functions (of a blob's bytes, of a tree's entries) are
  parameters.
\<close>

text \<open>Modelled from the spec: a content hash, the address of a blob, tree or commit.\<close>

type_synonym address = string

text \<open>Modelled from the spec: the mode of a tree entry (file, executable, subdirectory).\<close>

datatype mode = RegularFile | ExecutableFile | Subdirectory

text \<open>Modelled from the spec: the kind of object a tree entry refers to.\<close>

datatype kind = BlobObject | TreeObject

text \<open>
  Modelled from the spec: TreeEntry, one child of a directory (path segment, mode,
  referenced object hash, kind).
\<close>

record tree_entry =
  segment :: string
  entry_mode :: mode
  target :: address
  entry_kind :: kind

text \<open>
  Modelled from the spec: a Tree is an ordered, deduplicated set of entries. The order
  is by path segment first, then by the other attributes.
\<close>

fun mode_rank :: "mode \<Rightarrow> nat" where
  "mode_rank RegularFile = 0"
| "mode_rank ExecutableFile = 1"
| "mode_rank Subdirectory = 2"

fun kind_rank :: "kind \<Rightarrow> nat" where
  "kind_rank BlobObject = 0"
| "kind_rank TreeObject = 1"

definition entry_key :: "tree_entry \<Rightarrow> string \<times> nat \<times> address \<times> nat" where
  "entry_key e = (segment e, mode_rank (entry_mode e), target e, kind_rank (entry_kind e))"

definition make_tree :: "tree_entry list \<Rightarrow> tree_entry list" where
  "make_tree es = sort_key entry_key (remdups es)"

text \<open>
  Modelled from the spec: an input triple of the tree builder after path normalisation,
  the segments of the relative path with the object address and the mode.
\<close>

type_synonym placed = "string list \<times> address \<times> mode"

text \<open>Modelled from the spec: the entry of a file that lies in this directory itself.\<close>

fun file_entry :: "placed \<Rightarrow> tree_entry option" where
  "file_entry ([s], a, m) =
     Some \<lparr>segment = s, entry_mode = m, target = a, entry_kind = BlobObject\<rparr>"
| "file_entry (p, a, m) = None"

text \<open>Modelled from the spec: the subdirectory of this directory an input lies under.\<close>

fun subdirectory_of :: "placed \<Rightarrow> string option" where
  "subdirectory_of (d # s # r, a, m) = Some d"
| "subdirectory_of (p, a, m) = None"

text \<open>
  Modelled from the spec: grouping by parent directory; an input under the subdirectory
  \<open>d\<close>, seen from \<open>d\<close>.
\<close>

fun below :: "string \<Rightarrow> placed \<Rightarrow> placed option" where
  "below d (d' # s # r, a, m) = (if d' = d then Some (s # r, a, m) else None)"
| "below d (p, a, m) = None"

text \<open>
  The total number of path segments: it shrinks from a directory to each of its
  subdirectories, which is why \<open>build_tree\<close> below terminates.
\<close>

definition weight :: "placed list \<Rightarrow> nat" where
  "weight es = sum_list (map (\<lambda>e. length (fst e)) es)"

lemma weight_below_le: "weight (List.map_filter (below d) es) \<le> weight es"
proof (induction es)
  case Nil
  then show ?case by (simp add: weight_def)
next
  case (Cons e es)
  then show ?case
    by (cases "(d, e)" rule: below.cases) (auto simp: weight_def)
qed

lemma weight_below_less:
  "d \<in> set (List.map_filter subdirectory_of es) \<Longrightarrow>
   weight (List.map_filter (below d) es) < weight es"
proof (induction es)
  case Nil
  then show ?case by simp
next
  case (Cons e es)
  show ?case
  proof (cases "subdirectory_of e = Some d")
    case True
    then obtain s r a m where e: "e = (d # s # r, a, m)"
      by (cases e rule: subdirectory_of.cases) auto
    have "weight (List.map_filter (below d) es) \<le> weight es"
      by (rule weight_below_le)
    then show ?thesis
      by (simp add: e weight_def)
  next
    case False
    with Cons.prems have "d \<in> set (List.map_filter subdirectory_of es)"
      by (auto split: option.splits)
    then have "weight (List.map_filter (below d) es) < weight es"
      by (rule Cons.IH)
    then show ?thesis
      by (cases "(d, e)" rule: below.cases) (auto simp: weight_def)
  qed
qed

text \<open>
  Modelled from the spec: TreeBuilder. The entries are grouped by directory, the tree of
  each subdirectory is built first, and its address is folded into the parent as an
  entry of kind subdirectory; the result is the address of the root tree. \<open>H\<close> gives the
  address of a tree.
\<close>

function build_tree :: "(tree_entry list \<Rightarrow> address) \<Rightarrow> placed list \<Rightarrow> address" where
  "build_tree H es =
     (let files = List.map_filter file_entry es;
          subdirectories = remdups (List.map_filter subdirectory_of es);
          subtrees = map (\<lambda>d. \<lparr>segment = d, entry_mode = Subdirectory,
                                 target = build_tree H (List.map_filter (below d) es),
                                 entry_kind = TreeObject\<rparr>) subdirectories
      in H (make_tree (files @ subtrees)))"
  by pat_completeness auto
termination
  by (relation "measure (\<lambda>(H, es). weight es)") (auto simp: weight_below_less)

declare build_tree.simps [simp del]

text \<open>Modelled from the spec: LocalFile, a file under the sync root.\<close>

record local_file =
  rel_path :: string
  raw_bytes :: string
  executable :: bool

text \<open>Modelled from the spec: the error of a path that contains \<open>..\<close>.\<close>

datatype path_error = PathError

text \<open>
  Modelled from the spec: path normalisation strips any empty segments and rejects
  paths containing \<open>..\<close> with PathError.
\<close>

definition path_segments :: "string \<Rightarrow> string list" where
  "path_segments p = filter (\<lambda>s. s \<noteq> []) (py_split (CHR ''/'') p)"

definition normalize_path :: "string \<Rightarrow> path_error + string list" where
  "normalize_path p =
     (if ''..'' \<in> set (path_segments p) then Inl PathError else Inr (path_segments p))"

fun place_all :: "(string \<times> address \<times> mode) list \<Rightarrow> path_error + placed list" where
  "place_all [] = Inr []"
| "place_all ((p, a, m) # ts) =
     (case normalize_path p of
        Inl e \<Rightarrow> Inl e
      | Inr segments \<Rightarrow>
          (case place_all ts of
             Inl e \<Rightarrow> Inl e
           | Inr es \<Rightarrow> Inr ((segments, a, m) # es)))"

text \<open>
  Modelled from the spec: the root tree address of the full set of (relative path,
  object address, mode) triples.
\<close>

definition tree_root ::
  "(tree_entry list \<Rightarrow> address) \<Rightarrow> (string \<times> address \<times> mode) list
     \<Rightarrow> path_error + address" where
  "tree_root H ts = (case place_all ts of Inl e \<Rightarrow> Inl e | Inr es \<Rightarrow> Inr (build_tree H es))"

text \<open>
  Modelled from the spec: ContentUploader. A blob's address is a function \<open>B\<close> of its
  bytes; the file becomes its triple.
\<close>

definition upload :: "(string \<Rightarrow> address) \<Rightarrow> local_file \<Rightarrow> string \<times> address \<times> mode" where
  "upload B f =
     (rel_path f, B (raw_bytes f), if executable f then ExecutableFile else RegularFile)"

text \<open>Modelled from the spec: a run, from the collected files to the root tree address.\<close>

definition sync_tree_root ::
  "(string \<Rightarrow> address) \<Rightarrow> (tree_entry list \<Rightarrow> address) \<Rightarrow> local_file list
     \<Rightarrow> path_error + address" where
  "sync_tree_root B H files = tree_root H (map (upload B) files)"

text \<open>Address functions and files for the examples (the three files of spec section 8).\<close>

definition toy_blob_address :: "string \<Rightarrow> address" where
  "toy_blob_address bytes = ''blob('' @ bytes @ '')''"

definition toy_tree_address :: "tree_entry list \<Rightarrow> address" where
  "toy_tree_address es =
     ''tree('' @ concat (map (\<lambda>e. segment e @ ''='' @ target e @ '';'') es) @ '')''"

definition sample_files :: "local_file list" where
  "sample_files =
     [\<lparr>rel_path = ''a/b/c/file1'', raw_bytes = ''one'', executable = False\<rparr>,
      \<lparr>rel_path = ''a/b/file2'', raw_bytes = ''two'', executable = True\<rparr>,
      \<lparr>rel_path = ''a/file3'', raw_bytes = ''three'', executable = False\<rparr>]"

section \<open>The commit composer of the engine (spec, sections 3, 4.4 and 7)\<close>

text \<open>
  Modelled from the spec: the commit composer is part of the engine that is not among
  the source files; it follows the words of the spec, section 4.4. The remote store is
  a value passed along; every remote call may fail, as the \<open>fault\<close> it is given says,
  and a failed call leaves the remote store as it was.
\<close>

text \<open>Modelled from the spec: the error kinds of section 7.\<close>

datatype sync_error =
    AuthError | NotFoundError | RateLimitError | ConcurrentModificationError
  | ValidationError | NetworkError | AlreadyExistsError

text \<open>Modelled from the spec: Commit (root tree, zero or one parent, message).\<close>

record commit =
  root_tree :: address
  parents :: "address list"
  message :: string

text \<open>Modelled from the spec: the remote store, its commit objects and its branch refs.\<close>

record remote =
  commits :: "(address \<times> commit) list"
  refs :: "string \<rightharpoonup> address"

text \<open>Modelled from the spec: what happens to each of the three remote calls of a run.\<close>

record faults =
  on_read_head :: "sync_error option"
  on_create_commit :: "sync_error option"
  on_ref :: "sync_error option"

text \<open>Modelled from the spec: Missing to Created, Existing to Updated.\<close>

datatype ref_state = Created | Updated

text \<open>Modelled from the spec: read the head of the branch (absent if there is none).\<close>

definition read_head ::
  "sync_error option \<Rightarrow> remote \<Rightarrow> string \<Rightarrow> sync_error + address option" where
  "read_head fault r branch = (case fault of Some e \<Rightarrow> Inl e | None \<Rightarrow> Inr (refs r branch))"

text \<open>Modelled from the spec: create the commit object; \<open>C\<close> gives its address.\<close>

definition create_commit ::
  "(commit \<Rightarrow> address) \<Rightarrow> sync_error option \<Rightarrow> remote \<Rightarrow> commit
     \<Rightarrow> (sync_error + address) \<times> remote" where
  "create_commit C fault r c =
     (case fault of
        Some e \<Rightarrow> (Inl e, r)
      | None \<Rightarrow> (Inr (C c), r\<lparr>commits := (C c, c) # commits r\<rparr>))"

text \<open>
  Modelled from the spec: advance the branch ref. Branch absent: create the ref. Branch
  present: update it from the old head, on condition that the old head is what the
  remote records; a mismatch fails with ConcurrentModificationError.
\<close>

definition advance_ref ::
  "sync_error option \<Rightarrow> remote \<Rightarrow> string \<Rightarrow> address option \<Rightarrow> address
     \<Rightarrow> (sync_error + ref_state) \<times> remote" where
  "advance_ref fault r branch head new =
     (case fault of
        Some e \<Rightarrow> (Inl e, r)
      | None \<Rightarrow>
          (case head of
             None \<Rightarrow> (Inr Created, r\<lparr>refs := (refs r)(branch \<mapsto> new)\<rparr>)
           | Some old \<Rightarrow>
               if refs r branch = Some old
               then (Inr Updated, r\<lparr>refs := (refs r)(branch \<mapsto> new)\<rparr>)
               else (Inl ConcurrentModificationError, r)))"

text \<open>
  Modelled from the spec: CommitComposer. Read the head, create the commit with the
  observed head as sole parent, advance the ref. The result is the outcome and the
  remote store as it stood at the start and after each remote call.
\<close>

definition compose_commit ::
  "(commit \<Rightarrow> address) \<Rightarrow> faults \<Rightarrow> remote \<Rightarrow> string \<Rightarrow> address \<Rightarrow> string
     \<Rightarrow> (sync_error + address) \<times> remote list" where
  "compose_commit C f r branch tree msg =
     (case read_head (on_read_head f) r branch of
        Inl e \<Rightarrow> (Inl e, [r])
      | Inr head \<Rightarrow>
          (case create_commit C (on_create_commit f) r
                  \<lparr>root_tree = tree,
                   parents = (case head of None \<Rightarrow> [] | Some h \<Rightarrow> [h]),
                   message = msg\<rparr> of
             (Inl e, r1) \<Rightarrow> (Inl e, [r, r1])
           | (Inr new, r1) \<Rightarrow>
               (case advance_ref (on_ref f) r1 branch head new of
                  (Inl e, r2) \<Rightarrow> (Inl e, [r, r1, r2])
                | (Inr st, r2) \<Rightarrow> (Inr new, [r, r1, r2]))))"

text \<open>A remote store and an address function for the examples.\<close>

definition sample_remote :: remote where
  "sample_remote = \<lparr>commits = [], refs = [''main'' \<mapsto> ''c0'']\<rparr>"

definition toy_commit_address :: "commit \<Rightarrow> address" where
  "toy_commit_address c = ''commit('' @ root_tree c @ '','' @ concat (parents c) @ '')''"

section \<open>Facts about the text operations and about runs\<close>

lemmas run_defs =
  ret_def raise_def print_line_def print_lines_def invoke_def then_do_def try_except_def

lemma py_split_not_Nil: "py_split c s \<noteq> []"
  by (induction s) (auto split: list.splits)

lemma length_py_split: "length (py_split c s) = Suc (count_list s c)"
  by (induction s) (auto split: list.splits simp: py_split_not_Nil)

lemma count_list_dropWhile: "\<not> P c \<Longrightarrow> count_list (dropWhile P s) c = count_list s c"
  by (induction s) auto

lemma count_list_py_strip: "\<not> isspace c \<Longrightarrow> count_list (py_strip s) c = count_list s c"
  by (simp add: py_strip_def count_list_dropWhile)

text \<open>Stripping a field does not change how many parts it splits into at the slash.\<close>

lemma slash_fields_py_strip:
  "length (py_split (CHR ''/'') (py_strip s)) = length (py_split (CHR ''/'') s)"
proof -
  have "\<not> isspace (CHR ''/'')" by (simp add: isspace_def)
  then show ?thesis by (simp add: length_py_split count_list_py_strip)
qed

lemma tool_returns: "\<exists>s. result (try_except body tool_except) = Returns s"
proof (cases "result body")
  case (Returns x)
  then show ?thesis by (simp add: try_except_def)
next
  case (Raises e)
  then show ?thesis by (simp add: try_except_def tool_except_def ret_def)
qed

lemma script_printed: "printed (script eng cmd) = banner @ printed (main eng cmd)"
  by (simp add: script_def run_defs)

lemma script_result: "result (script eng cmd) = result (main eng cmd)"
  by (simp add: script_def run_defs)

lemma script_called: "called (script eng cmd) = called (main eng cmd)"
  by (simp add: script_def run_defs)

lemma diagnosed_status_zeroI:
  "printed (main eng cmd) = [cross_mark @ '' Error: '' @ m] \<Longrightarrow>
   result (main eng cmd) = Returns () \<Longrightarrow>
   diagnosed_status_zero (script eng cmd) m"
  by (simp add: diagnosed_status_zero_def script_printed script_result exit_status_def)

lemmas tool_defs =
  list_my_github_repos_def create_github_repo_def sync_project_to_github_def
  create_repo_and_upload_project_def

lemma tool_result:
  "result (try_except body tool_except) =
     (case result body of Returns s \<Rightarrow> Returns s | Raises e \<Rightarrow> Returns (error_text e))"
  by (simp add: try_except_def tool_except_def ret_def split: outcome.splits)

lemma tool_called: "called (try_except body tool_except) = called body"
  by (simp add: try_except_def tool_except_def ret_def split: outcome.splits)

lemma then_do_ret: "then_do (ret x) f = f x"
  by (simp add: then_do_def ret_def)

lemma called_then_invoke:
  "(\<And>x. called (f x) = []) \<Longrightarrow> called (then_do (invoke c r) f) = [c]"
  by (cases r) (simp_all add: then_do_def invoke_def)

lemma sync_except_called: "sync_except e = Some h \<Longrightarrow> called h = []"
  by (cases e) (auto simp: print_line_def)

lemma cli_except_called: "cli_except e = Some h \<Longrightarrow> called h = []"
  by (cases e) (auto simp: print_line_def)

lemma called_try_except:
  "(\<And>e h. handler e = Some h \<Longrightarrow> called h = []) \<Longrightarrow>
   called (try_except body handler) = called body"
  by (auto simp: try_except_def split: outcome.splits option.splits)

lemma cmd_sync_project_called:
  assumes "py_split (CHR ''/'') (sy_repository args) = [owner, repo]"
  shows "called (cmd_sync_project eng args)
     = [SyncProjectToRepo owner repo (sy_path args) (sy_branch args)]"
proof -
  have "called (cmd_sync_project eng args) =
      called (then_do
          (invoke (SyncProjectToRepo owner repo (sy_path args) (sy_branch args))
             (sync_project_to_repo eng owner repo (sy_path args) (sy_branch args)))
          (\<lambda>synced. print_line (check_mark @ '' Synced '' @ str_nat (length synced)
                                 @ '' files to '' @ sy_repository args)))"
    unfolding cmd_sync_project_def
    by (simp add: assms then_do_ret called_try_except sync_except_called)
  then show ?thesis
    by (simp add: called_then_invoke print_line_def)
qed

lemma cmd_create_and_sync_called:
  "called (cmd_create_and_sync eng args)
     = [CreateRepoAndSync (cs_name args) (cs_description args) (cs_private args) (cs_path args)
          (cs_org args)]"
  unfolding cmd_create_and_sync_def
  by (simp add: called_try_except cli_except_called called_then_invoke print_line_def
      split: option.splits)

lemma sync_tool_called:
  assumes "py_split (CHR ''/'') (py_strip (py_split (CHR ''|'') repo_info ! 0)) = [owner, repo]"
  shows "called (sync_project_to_github eng repo_info) =
     [SyncProjectToRepo owner repo ''.''
        (if 1 < length (py_split (CHR ''|'') repo_info)
            \<and> py_strip (py_split (CHR ''|'') repo_info ! 1) \<noteq> []
         then py_strip (py_split (CHR ''|'') repo_info ! 1) else ''main'')]"
proof -
  have ne: "\<not> length (py_split (CHR ''|'') repo_info) < 1"
    by (simp add: length_py_split)
  show ?thesis
    unfolding sync_project_to_github_def sync_project_to_github_body_def Let_def tool_called
    by (simp only: ne if_False assms list.case, rule called_then_invoke) (simp add: ret_def)
qed

lemma sync_tool_rejects:
  assumes "length (py_split (CHR ''/'') (py_strip (py_split (CHR ''|'') repo_info ! 0))) \<noteq> 2"
  shows "sync_project_to_github_body eng repo_info
     = ret ''Error: Repository format should be owner/repo_name''"
  using assms unfolding sync_project_to_github_body_def Let_def
  by (auto simp: py_split_not_Nil split: list.splits)

lemma create_tools_called:
  assumes "3 \<le> length (py_split (CHR ''|'') repo_info)"
  shows "called (create_github_repo eng repo_info) =
       [CreateRepository (py_strip (py_split (CHR ''|'') repo_info ! 0))
          (py_strip (py_split (CHR ''|'') repo_info ! 1))
          (py_lower (py_strip (py_split (CHR ''|'') repo_info ! 2)) = ''true'')
          (if 3 < length (py_split (CHR ''|'') repo_info)
              \<and> py_strip (py_split (CHR ''|'') repo_info ! 3) \<noteq> []
           then Some (py_strip (py_split (CHR ''|'') repo_info ! 3)) else None)]"
    and "called (create_repo_and_upload_project eng repo_info) =
       [CreateRepoAndSync (py_strip (py_split (CHR ''|'') repo_info ! 0))
          (py_strip (py_split (CHR ''|'') repo_info ! 1))
          (py_lower (py_strip (py_split (CHR ''|'') repo_info ! 2)) = ''true'')
          ''.''
          (if 3 < length (py_split (CHR ''|'') repo_info)
              \<and> py_strip (py_split (CHR ''|'') repo_info ! 3) \<noteq> []
           then Some (py_strip (py_split (CHR ''|'') repo_info ! 3)) else None)]"
proof -
  have a: "\<not> length (py_split (CHR ''|'') repo_info) < 3"
    and b: "2 < length (py_split (CHR ''|'') repo_info)"
    and c: "1 < length (py_split (CHR ''|'') repo_info)"
    using assms by simp_all
  show "called (create_github_repo eng repo_info) =
       [CreateRepository (py_strip (py_split (CHR ''|'') repo_info ! 0))
          (py_strip (py_split (CHR ''|'') repo_info ! 1))
          (py_lower (py_strip (py_split (CHR ''|'') repo_info ! 2)) = ''true'')
          (if 3 < length (py_split (CHR ''|'') repo_info)
              \<and> py_strip (py_split (CHR ''|'') repo_info ! 3) \<noteq> []
           then Some (py_strip (py_split (CHR ''|'') repo_info ! 3)) else None)]"
    unfolding create_github_repo_def create_github_repo_body_def Let_def tool_called
    by (simp only: a b c if_False if_True, rule called_then_invoke) (simp add: ret_def)
  show "called (create_repo_and_upload_project eng repo_info) =
       [CreateRepoAndSync (py_strip (py_split (CHR ''|'') repo_info ! 0))
          (py_strip (py_split (CHR ''|'') repo_info ! 1))
          (py_lower (py_strip (py_split (CHR ''|'') repo_info ! 2)) = ''true'')
          ''.''
          (if 3 < length (py_split (CHR ''|'') repo_info)
              \<and> py_strip (py_split (CHR ''|'') repo_info ! 3) \<noteq> []
           then Some (py_strip (py_split (CHR ''|'') repo_info ! 3)) else None)]"
    unfolding create_repo_and_upload_project_def create_repo_and_upload_project_body_def Let_def
      tool_called
    by (simp only: a b c if_False if_True, rule called_then_invoke)
       (simp add: ret_def split: option.splits)
qed

section \<open>Facts about the tree builder\<close>

lemma inj_entry_key: "inj entry_key"
proof (rule injI)
  fix x y :: tree_entry
  assume "entry_key x = entry_key y"
  then have eq: "segment x = segment y" "mode_rank (entry_mode x) = mode_rank (entry_mode y)"
    "target x = target y" "kind_rank (entry_kind x) = kind_rank (entry_kind y)"
    by (simp_all add: entry_key_def)
  have "entry_mode x = entry_mode y"
    using eq(2) by (cases "entry_mode x"; cases "entry_mode y") simp_all
  moreover have "entry_kind x = entry_kind y"
    using eq(4) by (cases "entry_kind x"; cases "entry_kind y") simp_all
  ultimately show "x = y"
    using eq(1,3) by simp
qed

lemma make_tree_set:
  assumes "set xs = set ys"
  shows "make_tree xs = make_tree ys"
proof -
  have "map entry_key (make_tree xs) = map entry_key (make_tree ys)"
  proof (rule sorted_distinct_set_unique)
    show "sorted (map entry_key (make_tree xs))" by (simp add: make_tree_def)
    show "sorted (map entry_key (make_tree ys))" by (simp add: make_tree_def)
    show "distinct (map entry_key (make_tree xs))"
      by (simp add: make_tree_def distinct_map inj_on_subset [OF inj_entry_key])
    show "distinct (map entry_key (make_tree ys))"
      by (simp add: make_tree_def distinct_map inj_on_subset [OF inj_entry_key])
    show "set (map entry_key (make_tree xs)) = set (map entry_key (make_tree ys))"
      by (simp add: make_tree_def assms)
  qed
  then show ?thesis
    by (simp add: inj_map_eq_map [OF inj_entry_key])
qed

lemma set_map_filter: "set (List.map_filter f xs) = {y. \<exists>x \<in> set xs. f x = Some y}"
  by (induction xs) (auto split: option.splits)

lemma set_map_filter_cong:
  "set xs = set ys \<Longrightarrow> set (List.map_filter f xs) = set (List.map_filter f ys)"
  by (simp add: set_map_filter)

lemma build_tree_set:
  "set es = set es' \<Longrightarrow> build_tree H es = build_tree H es'"
proof (induction H es arbitrary: es' rule: build_tree.induct)
  case (1 H es)
  define ds where "ds = remdups (List.map_filter subdirectory_of es)"
  define ds' where "ds' = remdups (List.map_filter subdirectory_of es')"
  define sub where "sub = (\<lambda>d. \<lparr>segment = d, entry_mode = Subdirectory,
                    target = build_tree H (List.map_filter (below d) es),
                    entry_kind = TreeObject\<rparr>)"
  define sub' where "sub' = (\<lambda>d. \<lparr>segment = d, entry_mode = Subdirectory,
                    target = build_tree H (List.map_filter (below d) es'),
                    entry_kind = TreeObject\<rparr>)"
  have dirs: "set ds = set ds'"
    unfolding ds_def ds'_def using "1.prems" by (simp add: set_map_filter)
  have files: "set (List.map_filter file_entry es) = set (List.map_filter file_entry es')"
    using "1.prems" by (rule set_map_filter_cong)
  have same: "sub d = sub' d" if "d \<in> set ds" for d
  proof -
    have mem: "d \<in> set (remdups (List.map_filter subdirectory_of es))"
      using that by (simp add: ds_def)
    have "set (List.map_filter (below d) es) = set (List.map_filter (below d) es')"
      using "1.prems" by (rule set_map_filter_cong)
    with mem have "build_tree H (List.map_filter (below d) es)
        = build_tree H (List.map_filter (below d) es')"
      by (rule "1.IH" [OF refl refl])
    then show ?thesis
      by (simp add: sub_def sub'_def)
  qed
  have "sub ` set ds = sub' ` set ds'"
    using dirs same by (metis image_cong)
  then have "set (List.map_filter file_entry es @ map sub ds)
     = set (List.map_filter file_entry es' @ map sub' ds')"
    using files by simp
  then have "make_tree (List.map_filter file_entry es @ map sub ds)
     = make_tree (List.map_filter file_entry es' @ map sub' ds')"
    by (rule make_tree_set)
  moreover have "build_tree H es = H (make_tree (List.map_filter file_entry es @ map sub ds))"
    by (subst build_tree.simps) (simp add: ds_def sub_def)
  moreover have "build_tree H es' = H (make_tree (List.map_filter file_entry es' @ map sub' ds'))"
    by (subst build_tree.simps) (simp add: ds'_def sub'_def)
  ultimately show ?case
    by simp
qed

lemma place_all_char:
  "place_all ts =
     (if \<exists>t \<in> set ts. ''..'' \<in> set (path_segments (fst t)) then Inl PathError
      else Inr (map (\<lambda>(p, a, m). (path_segments p, a, m)) ts))"
  by (induction ts rule: place_all.induct) (auto simp: normalize_path_def)

lemma tree_root_set:
  assumes "set ts = set ts'"
  shows "tree_root H ts = tree_root H ts'"
proof -
  have "set (map (\<lambda>(p, a, m). (path_segments p, a, m)) ts)
      = set (map (\<lambda>(p, a, m). (path_segments p, a, m)) ts')"
    using assms by simp
  then have "build_tree H (map (\<lambda>(p, a, m). (path_segments p, a, m)) ts)
      = build_tree H (map (\<lambda>(p, a, m). (path_segments p, a, m)) ts')"
    by (rule build_tree_set)
  then show ?thesis
    by (simp add: tree_root_def place_all_char assms)
qed

text \<open>The three files of the example, evaluated one directory level at a time.\<close>

lemma sample_root:
  "sync_tree_root toy_blob_address toy_tree_address sample_files
   = Inr ''tree(a=tree(b=tree(c=tree(file1=blob(one););file2=blob(two););file3=blob(three););)''"
  apply (simp add: sync_tree_root_def tree_root_def sample_files_def upload_def
      toy_blob_address_def normalize_path_def path_segments_def)
  apply (subst build_tree.simps, simp add: make_tree_def entry_key_def)
  apply (subst build_tree.simps, simp add: make_tree_def entry_key_def)
  apply (subst build_tree.simps, simp add: make_tree_def entry_key_def)
  apply (subst build_tree.simps, simp add: make_tree_def entry_key_def)
  apply (simp add: toy_tree_address_def less_eq_prod_def less_prod_def)
  done

section \<open>The root tree address is a function of the input set\<close>

text \<open>
  C1: two runs over the same set of (path, address, mode) triples compute the same root
  tree address, in whatever order and however often the triples are handed over; so do
  two runs over the same set of files (same relative paths, same bytes, same flags).
  Settled for the tree builder as the spec describes it.
\<close>

theorem root_tree_address_determined:
  "(set ts = set ts' \<longrightarrow> tree_root H ts = tree_root H ts')
   \<and> (set files = set files' \<longrightarrow> sync_tree_root B H files = sync_tree_root B H files')"
proof (intro conjI impI)
  assume "set ts = set ts'"
  then show "tree_root H ts = tree_root H ts'"
    by (rule tree_root_set)
next
  assume "set files = set files'"
  then have "set (map (upload B) files) = set (map (upload B) files')"
    by simp
  then show "sync_tree_root B H files = sync_tree_root B H files'"
    unfolding sync_tree_root_def by (rule tree_root_set)
qed

theorem root_tree_address_determined_witness:
  "set (map (upload toy_blob_address) sample_files)
     = set (map (upload toy_blob_address) (rev sample_files))
   \<and> tree_root toy_tree_address (map (upload toy_blob_address) (rev sample_files))
     = Inr ''tree(a=tree(b=tree(c=tree(file1=blob(one););file2=blob(two););file3=blob(three););)''
   \<and> set sample_files = set (rev sample_files @ sample_files)
   \<and> sync_tree_root toy_blob_address toy_tree_address (rev sample_files @ sample_files)
     = Inr ''tree(a=tree(b=tree(c=tree(file1=blob(one););file2=blob(two););file3=blob(three););)''"
proof -
  have "set (map (upload toy_blob_address) sample_files)
     = set (map (upload toy_blob_address) (rev sample_files))"
    by simp
  moreover have "set sample_files = set (rev sample_files @ sample_files)"
    by simp
  moreover have "tree_root toy_tree_address (map (upload toy_blob_address) sample_files)
     = Inr ''tree(a=tree(b=tree(c=tree(file1=blob(one););file2=blob(two););file3=blob(three););)''"
    using sample_root by (simp add: sync_tree_root_def)
  ultimately show ?thesis
    using sample_root
      root_tree_address_determined [where ts = "map (upload toy_blob_address) sample_files"
        and ts' = "map (upload toy_blob_address) (rev sample_files)" and H = toy_tree_address
        and files = sample_files and files' = "rev sample_files @ sample_files"
        and B = toy_blob_address]
    by (simp del: set_map set_rev set_append map_append rev_map)
qed

section \<open>The branch ref moves in one step or not at all\<close>

text \<open>
  C2: the ref update either succeeds, and the branch then points at the new commit, or
  fails, and the remote store is as it was; this also when the head the caller observed
  is stale. Over a whole run of the commit composer, every remote state up to the last
  has the refs of the start, and the last has them too unless the run succeeded, in
  which case only the branch changed, to the new commit. Settled for the commit composer
  as the spec describes it.
\<close>

theorem ref_update_atomic:
  "(case advance_ref fault r branch head new of
      (Inl e, r') \<Rightarrow> r' = r
    | (Inr st, r') \<Rightarrow> refs r' = (refs r)(branch \<mapsto> new))
   \<and> (case compose_commit C f r branch tree msg of
      (Inl e, trace) \<Rightarrow> list_all (\<lambda>s. refs s = refs r) trace
    | (Inr new, trace) \<Rightarrow>
        trace \<noteq> [] \<and> list_all (\<lambda>s. refs s = refs r) (butlast trace)
        \<and> refs (last trace) = (refs r)(branch \<mapsto> new))"
proof
  show "case advance_ref fault r branch head new of
      (Inl e, r') \<Rightarrow> r' = r
    | (Inr st, r') \<Rightarrow> refs r' = (refs r)(branch \<mapsto> new)"
    by (simp add: advance_ref_def split: option.splits)
next
  show "case compose_commit C f r branch tree msg of
      (Inl e, trace) \<Rightarrow> list_all (\<lambda>s. refs s = refs r) trace
    | (Inr new, trace) \<Rightarrow>
        trace \<noteq> [] \<and> list_all (\<lambda>s. refs s = refs r) (butlast trace)
        \<and> refs (last trace) = (refs r)(branch \<mapsto> new)"
  proof (cases "on_read_head f")
    case (Some e)
    then show ?thesis
      by (simp add: compose_commit_def read_head_def)
  next
    case None
    note read = this
    show ?thesis
    proof (cases "on_create_commit f")
      case (Some e)
      with read show ?thesis
        by (simp add: compose_commit_def read_head_def create_commit_def)
    next
      case None
      with read show ?thesis
        by (simp add: compose_commit_def read_head_def create_commit_def advance_ref_def
            split: option.splits)
    qed
  qed
qed

theorem ref_update_atomic_witness:
  "advance_ref None sample_remote ''main'' (Some ''c0'') ''c1''
     = (Inr Updated, sample_remote\<lparr>refs := (refs sample_remote)(''main'' \<mapsto> ''c1'')\<rparr>)
   \<and> advance_ref None sample_remote ''main'' (Some ''stale'') ''c1''
     = (Inl ConcurrentModificationError, sample_remote)
   \<and> fst (compose_commit toy_commit_address
        \<lparr>on_read_head = None, on_create_commit = None, on_ref = None\<rparr>
        sample_remote ''main'' ''t1'' ''sync'') = Inr ''commit(t1,c0)''
   \<and> map (\<lambda>s. refs s ''main'') (snd (compose_commit toy_commit_address
        \<lparr>on_read_head = None, on_create_commit = None, on_ref = None\<rparr>
        sample_remote ''main'' ''t1'' ''sync'')) = [Some ''c0'', Some ''c0'', Some ''commit(t1,c0)'']
   \<and> fst (compose_commit toy_commit_address
        \<lparr>on_read_head = None, on_create_commit = None, on_ref = Some NetworkError\<rparr>
        sample_remote ''main'' ''t1'' ''sync'') = Inl NetworkError
   \<and> map (\<lambda>s. refs s ''main'') (snd (compose_commit toy_commit_address
        \<lparr>on_read_head = None, on_create_commit = None, on_ref = Some NetworkError\<rparr>
        sample_remote ''main'' ''t1'' ''sync'')) = [Some ''c0'', Some ''c0'', Some ''c0'']"
  using ref_update_atomic [where fault = None and r = sample_remote and branch = "''main''"
      and head = "Some ''c0''" and new = "''c1''" and C = toy_commit_address
      and f = "\<lparr>on_read_head = None, on_create_commit = None, on_ref = None\<rparr>"
      and tree = "''t1''" and msg = "''sync''"]
  by (simp add: advance_ref_def compose_commit_def read_head_def create_commit_def
      sample_remote_def toy_commit_address_def)

section \<open>GitHubError in the command handlers\<close>

text \<open>
  C3, as stated, fails: when \<open>create_repository\<close> raises \<open>GitHubError\<close>, \<open>create-repo\<close>
  prints its line and the process completes with status 0, not with a non-zero status.
\<close>

theorem cli_github_error_status_counterexample:
  "create_repository failing_engine ''demo'' [] True None
     = Raises (GitHubError ''Bad credentials'')
   \<and> printed (script failing_engine (CreateRepo ''demo'' None False False None))
       = banner @ [cross_mark @ '' Error: Bad credentials'']
   \<and> exit_status (script failing_engine (CreateRepo ''demo'' None False False None)) = 0"
  by (simp add: script_def main_def cmd_create_repo_def run_defs failing_engine_def
      with_default_def private_attr_def exit_status_def)

text \<open>
  C3, amended: for every \<open>GitHubError\<close> raised by an underlying operation, each of the
  command handlers (list, create-repo, sync, create-and-sync) prints one text, the
  message of the error behind the cross and the word Error, and returns; the process
  completes with status 0.
\<close>

theorem cli_github_error_status:
  "(get_user_info eng = Raises (GitHubError m) \<or>
      (\<exists>u. get_user_info eng = Returns u) \<and> list_repositories eng = Raises (GitHubError m)
      \<longrightarrow> diagnosed_status_zero (script eng ListRepos) m)
   \<and> (create_repository eng name (with_default [] d) (private_attr pub pg) org
         = Raises (GitHubError m)
      \<longrightarrow> diagnosed_status_zero (script eng (CreateRepo name d pub pg org)) m)
   \<and> (py_split (CHR ''/'') repository = [owner, repo] \<and>
      sync_project_to_repo eng owner repo (with_default ''.'' path) (with_default ''main'' branch)
         = Raises (GitHubError m)
      \<longrightarrow> diagnosed_status_zero (script eng (Sync repository path branch)) m)
   \<and> (create_repo_and_sync eng name (with_default [] d) (private_attr pub pg)
         (with_default ''.'' path) org = Raises (GitHubError m)
      \<longrightarrow> diagnosed_status_zero (script eng (CreateAndSync name d pub pg org path)) m)"
proof (intro conjI impI)
  assume "get_user_info eng = Raises (GitHubError m) \<or>
      (\<exists>u. get_user_info eng = Returns u) \<and> list_repositories eng = Raises (GitHubError m)"
  then have "printed (main eng ListRepos) = [cross_mark @ '' Error: '' @ m]"
    and "result (main eng ListRepos) = Returns ()"
    by (auto simp: main_def cmd_list_repos_def run_defs)
  then show "diagnosed_status_zero (script eng ListRepos) m"
    by (rule diagnosed_status_zeroI)
next
  assume "create_repository eng name (with_default [] d) (private_attr pub pg) org
         = Raises (GitHubError m)"
  then have "printed (main eng (CreateRepo name d pub pg org)) = [cross_mark @ '' Error: '' @ m]"
    and "result (main eng (CreateRepo name d pub pg org)) = Returns ()"
    by (simp_all add: main_def cmd_create_repo_def run_defs)
  then show "diagnosed_status_zero (script eng (CreateRepo name d pub pg org)) m"
    by (rule diagnosed_status_zeroI)
next
  assume "py_split (CHR ''/'') repository = [owner, repo] \<and>
      sync_project_to_repo eng owner repo (with_default ''.'' path) (with_default ''main'' branch)
         = Raises (GitHubError m)"
  then have "printed (main eng (Sync repository path branch)) = [cross_mark @ '' Error: '' @ m]"
    and "result (main eng (Sync repository path branch)) = Returns ()"
    by (simp_all add: main_def cmd_sync_project_def run_defs)
  then show "diagnosed_status_zero (script eng (Sync repository path branch)) m"
    by (rule diagnosed_status_zeroI)
next
  assume "create_repo_and_sync eng name (with_default [] d) (private_attr pub pg)
         (with_default ''.'' path) org = Raises (GitHubError m)"
  then have "printed (main eng (CreateAndSync name d pub pg org path))
       = [cross_mark @ '' Error: '' @ m]"
    and "result (main eng (CreateAndSync name d pub pg org path)) = Returns ()"
    by (simp_all add: main_def cmd_create_and_sync_def run_defs)
  then show "diagnosed_status_zero (script eng (CreateAndSync name d pub pg org path)) m"
    by (rule diagnosed_status_zeroI)
qed

theorem cli_github_error_status_witness:
  "(get_user_info failing_engine = Raises (GitHubError ''Bad credentials'')
      \<and> printed (script failing_engine ListRepos)
          = banner @ [cross_mark @ '' Error: Bad credentials'']
      \<and> exit_status (script failing_engine ListRepos) = 0)
   \<and> (create_repository failing_engine ''demo'' [] True None
        = Raises (GitHubError ''Bad credentials'')
      \<and> printed (script failing_engine (CreateRepo ''demo'' None False False None))
          = banner @ [cross_mark @ '' Error: Bad credentials'']
      \<and> exit_status (script failing_engine (CreateRepo ''demo'' None False False None)) = 0)
   \<and> (py_split (CHR ''/'') ''octocat/demo'' = [''octocat'', ''demo'']
      \<and> sync_project_to_repo failing_engine ''octocat'' ''demo'' ''.'' ''main''
          = Raises (GitHubError ''Bad credentials'')
      \<and> printed (script failing_engine (Sync ''octocat/demo'' None None))
          = banner @ [cross_mark @ '' Error: Bad credentials'']
      \<and> exit_status (script failing_engine (Sync ''octocat/demo'' None None)) = 0)
   \<and> (create_repo_and_sync failing_engine ''demo'' [] True ''.'' None
        = Raises (GitHubError ''Bad credentials'')
      \<and> printed (script failing_engine (CreateAndSync ''demo'' None False False None None))
          = banner @ [cross_mark @ '' Error: Bad credentials'']
      \<and> exit_status (script failing_engine (CreateAndSync ''demo'' None False False None None))
          = 0)"
  using cli_github_error_status [of failing_engine "''Bad credentials''" "''demo''" None False
      False None "''octocat/demo''" "''octocat''" "''demo''" None None]
  by (simp add: failing_engine_def with_default_def private_attr_def diagnosed_status_zero_def)


section \<open>Exceptions in the agent tools\<close>

lemmas eval_defs =
  tool_defs list_my_github_repos_body_def create_github_repo_body_def
  sync_project_to_github_body_def create_repo_and_upload_project_body_def
  cmd_sync_project_def cmd_create_and_sync_def cmd_create_repo_def cmd_list_repos_def
  main_def script_def run_defs tool_except_def with_default_def private_attr_def
  py_strip_def py_lower_def isspace_def lower_char_def
  failing_engine_def crashing_engine_def working_engine_def

text \<open>
  C4: whatever exception (\<open>GitHubError\<close> or any other) the \<open>try\<close> block of an agent tool
  raises, the tool returns a string, the text of the error, and lets no exception out.
  Shown for the four GitHub tools: each returns a string on every engine and every
  input, and returns \<open>error_text e\<close> when its block raises \<open>e\<close>.
\<close>

theorem agent_tools_never_raise:
  "((\<exists>s. result (list_my_github_repos eng query) = Returns s)
      \<and> (\<forall>e. result (list_my_github_repos_body eng query) = Raises e \<longrightarrow>
             result (list_my_github_repos eng query) = Returns (error_text e)))
   \<and> ((\<exists>s. result (create_github_repo eng repo_info) = Returns s)
      \<and> (\<forall>e. result (create_github_repo_body eng repo_info) = Raises e \<longrightarrow>
             result (create_github_repo eng repo_info) = Returns (error_text e)))
   \<and> ((\<exists>s. result (sync_project_to_github eng repo_info) = Returns s)
      \<and> (\<forall>e. result (sync_project_to_github_body eng repo_info) = Raises e \<longrightarrow>
             result (sync_project_to_github eng repo_info) = Returns (error_text e)))
   \<and> ((\<exists>s. result (create_repo_and_upload_project eng repo_info) = Returns s)
      \<and> (\<forall>e. result (create_repo_and_upload_project_body eng repo_info) = Raises e \<longrightarrow>
             result (create_repo_and_upload_project eng repo_info) = Returns (error_text e)))"
  unfolding tool_defs
  by (intro conjI tool_returns allI impI) (simp_all add: tool_result)

theorem agent_tools_never_raise_witness:
  "(result (list_my_github_repos_body failing_engine ''my repos'')
       = Raises (GitHubError ''Bad credentials'')
     \<and> result (list_my_github_repos failing_engine ''my repos'')
       = Returns ''GitHub Error: Bad credentials'')
   \<and> (result (create_github_repo_body crashing_engine ''demo|A demo|true|'')
       = Raises (OtherException ''Connection reset'')
     \<and> result (create_github_repo crashing_engine ''demo|A demo|true|'')
       = Returns ''Unexpected error: Connection reset'')
   \<and> (result (sync_project_to_github_body crashing_engine ''demo|A demo|true|'')
       = Returns ''Error: Repository format should be owner/repo_name''
     \<and> result (sync_project_to_github crashing_engine ''demo|A demo|true|'')
       = Returns ''Error: Repository format should be owner/repo_name'')
   \<and> (result (create_repo_and_upload_project_body crashing_engine ''demo|A demo|true|'')
       = Raises (OtherException ''Connection reset'')
     \<and> result (create_repo_and_upload_project crashing_engine ''demo|A demo|true|'')
       = Returns ''Unexpected error: Connection reset'')"
  using agent_tools_never_raise [of failing_engine "''my repos''" "''demo|A demo|true|''"]
    agent_tools_never_raise [of crashing_engine "''my repos''" "''demo|A demo|true|''"]
  by (simp add: eval_defs)

section \<open>Malformed repository arguments\<close>

text \<open>
  C5, as stated, fails for the command line: \<open>cmd_sync_project\<close> splits the whole
  repository argument at the slash, not its first pipe-field. For \<open>a|b/c\<close> the first
  pipe-field \<open>a\<close> has one part, and the handler calls the engine with owner \<open>a|b\<close> and
  repository \<open>c\<close>.
\<close>

theorem malformed_repository_rejected_counterexample:
  "length (py_split (CHR ''/'') (py_split (CHR ''|'') ''a|b/c'' ! 0)) \<noteq> 2
   \<and> called (cmd_sync_project working_engine
        \<lparr>sy_repository = ''a|b/c'', sy_path = ''.'', sy_branch = ''main''\<rparr>)
       = [SyncProjectToRepo ''a|b'' ''c'' ''.'' ''main'']
   \<and> printed (cmd_sync_project working_engine
        \<lparr>sy_repository = ''a|b/c'', sy_path = ''.'', sy_branch = ''main''\<rparr>)
       = [check_mark @ '' Synced 1 files to a|b/c'']"
  by (simp add: cmd_sync_project_def run_defs working_engine_def str_nat.simps digit_char_def)

text \<open>
  C5, amended: when the first pipe-field of the agent input does not split at the slash
  into exactly two parts, \<open>sync_project_to_github\<close> returns the format error and never
  calls \<open>sync_project_to_repo\<close>; when the whole repository argument of the command line
  does not split at the slash into exactly two parts, \<open>cmd_sync_project\<close> prints the
  format error and never calls \<open>sync_project_to_repo\<close>.
\<close>

theorem malformed_repository_rejected:
  "(length (py_split (CHR ''/'') (py_split (CHR ''|'') repo_info ! 0)) \<noteq> 2 \<longrightarrow>
      result (sync_project_to_github eng repo_info)
        = Returns ''Error: Repository format should be owner/repo_name''
      \<and> called (sync_project_to_github eng repo_info) = [])
   \<and> (length (py_split (CHR ''/'') (sy_repository args)) \<noteq> 2 \<longrightarrow>
      printed (cmd_sync_project eng args)
        = [cross_mark @ '' Error: Repository format should be owner/repo_name'']
      \<and> result (cmd_sync_project eng args) = Returns ()
      \<and> called (cmd_sync_project eng args) = [])"
proof (intro conjI impI)
  assume "length (py_split (CHR ''/'') (py_split (CHR ''|'') repo_info ! 0)) \<noteq> 2"
  then have "length (py_split (CHR ''/'') (py_strip (py_split (CHR ''|'') repo_info ! 0))) \<noteq> 2"
    by (simp add: slash_fields_py_strip)
  then have bad: "sync_project_to_github_body eng repo_info
     = ret ''Error: Repository format should be owner/repo_name''"
    by (rule sync_tool_rejects)
  show "result (sync_project_to_github eng repo_info)
        = Returns ''Error: Repository format should be owner/repo_name''"
    by (simp add: sync_project_to_github_def tool_result bad ret_def)
  show "called (sync_project_to_github eng repo_info) = []"
    by (simp add: sync_project_to_github_def tool_called bad ret_def)
next
  assume "length (py_split (CHR ''/'') (sy_repository args)) \<noteq> 2"
  then have "\<exists>m. unpack2 (py_split (CHR ''/'') (sy_repository args)) = raise (ValueError m)"
    by (cases "py_split (CHR ''/'') (sy_repository args)" rule: unpack2.cases) auto
  then obtain m where "unpack2 (py_split (CHR ''/'') (sy_repository args)) = raise (ValueError m)"
    by blast
  then have bad: "cmd_sync_project eng args
     = \<lparr>printed = [cross_mark @ '' Error: Repository format should be owner/repo_name''],
        called = [], result = Returns ()\<rparr>"
    by (simp add: cmd_sync_project_def run_defs)
  show "printed (cmd_sync_project eng args)
        = [cross_mark @ '' Error: Repository format should be owner/repo_name'']"
    by (simp add: bad)
  show "result (cmd_sync_project eng args) = Returns ()"
    by (simp add: bad)
  show "called (cmd_sync_project eng args) = []"
    by (simp add: bad)
qed

theorem malformed_repository_rejected_witness:
  "(length (py_split (CHR ''/'') (py_split (CHR ''|'') ''octocat|main'' ! 0)) \<noteq> 2
     \<and> result (sync_project_to_github working_engine ''octocat|main'')
         = Returns ''Error: Repository format should be owner/repo_name''
     \<and> called (sync_project_to_github working_engine ''octocat|main'') = [])
   \<and> (length (py_split (CHR ''/'') ''github.com/octocat/demo'') \<noteq> 2
     \<and> printed (cmd_sync_project working_engine
          \<lparr>sy_repository = ''github.com/octocat/demo'', sy_path = ''.'', sy_branch = ''main''\<rparr>)
         = [cross_mark @ '' Error: Repository format should be owner/repo_name'']
     \<and> result (cmd_sync_project working_engine
          \<lparr>sy_repository = ''github.com/octocat/demo'', sy_path = ''.'', sy_branch = ''main''\<rparr>)
         = Returns ()
     \<and> called (cmd_sync_project working_engine
          \<lparr>sy_repository = ''github.com/octocat/demo'', sy_path = ''.'', sy_branch = ''main''\<rparr>)
         = [])"
  using malformed_repository_rejected [of "''octocat|main''" working_engine
      "\<lparr>sy_repository = ''github.com/octocat/demo'', sy_path = ''.'', sy_branch = ''main''\<rparr>"]
  by simp

section \<open>Inputs with fewer than three fields\<close>

text \<open>
  C6: for an input with fewer than three pipe-separated fields, \<open>create_github_repo\<close> and
  \<open>create_repo_and_upload_project\<close> return the format-error message and make no call to
  the engine (neither \<open>create_repository\<close> nor \<open>create_repo_and_sync\<close>).
\<close>

theorem short_input_rejected:
  assumes "length (py_split (CHR ''|'') repo_info) < 3"
  shows "result (create_github_repo eng repo_info) = Returns format_error
     \<and> called (create_github_repo eng repo_info) = []
     \<and> result (create_repo_and_upload_project eng repo_info) = Returns format_error
     \<and> called (create_repo_and_upload_project eng repo_info) = []"
  using assms
  by (simp add: tool_defs tool_result tool_called create_github_repo_body_def
      create_repo_and_upload_project_body_def ret_def)

theorem short_input_rejected_witness:
  "length (py_split (CHR ''|'') ''demo|A demo'') < 3
   \<and> result (create_github_repo working_engine ''demo|A demo'') = Returns format_error
   \<and> called (create_github_repo working_engine ''demo|A demo'') = []
   \<and> result (create_repo_and_upload_project working_engine ''demo|A demo'') = Returns format_error
   \<and> called (create_repo_and_upload_project working_engine ''demo|A demo'') = []"
  using short_input_rejected [of "''demo|A demo''" working_engine]
  by simp

section \<open>The visibility flag of the agent tools\<close>



section \<open>The default branch\<close>




section \<open>The local path\<close>

text \<open>
  C9: the agent tools \<open>sync_project_to_github\<close> and \<open>create_repo_and_upload_project\<close>
  call the engine with the local path \<open>.\<close> or not at all, whatever the input; on the
  command line the value of \<open>--path\<close> is the local path the engine is called with.
\<close>

theorem agent_local_path_is_dot:
  "(called (sync_project_to_github eng repo_info) = []
      \<or> (\<exists>owner repo branch.
            called (sync_project_to_github eng repo_info)
              = [SyncProjectToRepo owner repo ''.'' branch]))
   \<and> (called (create_repo_and_upload_project eng repo_info) = []
      \<or> (\<exists>name description private org.
            called (create_repo_and_upload_project eng repo_info)
              = [CreateRepoAndSync name description private ''.'' org]))
   \<and> (py_split (CHR ''/'') repository = [owner', repo'] \<longrightarrow>
        called (main eng (Sync repository (Some path) branch'))
         = [SyncProjectToRepo owner' repo' path (with_default ''main'' branch')])
   \<and> called (main eng (CreateAndSync name' d pub pg org' (Some path)))
         = [CreateRepoAndSync name' (with_default [] d) (private_attr pub pg) path org']"
proof (intro conjI impI)
  show "called (sync_project_to_github eng repo_info) = []
      \<or> (\<exists>owner repo branch.
            called (sync_project_to_github eng repo_info)
              = [SyncProjectToRepo owner repo ''.'' branch])"
  proof (cases "length (py_split (CHR ''/'') (py_strip (py_split (CHR ''|'') repo_info ! 0))) = 2")
    case True
    then obtain owner repo where
      "py_split (CHR ''/'') (py_strip (py_split (CHR ''|'') repo_info ! 0)) = [owner, repo]"
      by (auto simp: length_Suc_conv numeral_2_eq_2)
    then show ?thesis
      using sync_tool_called by blast
  next
    case False
    then show ?thesis
      by (simp add: sync_project_to_github_def tool_called sync_tool_rejects ret_def)
  qed
  show "called (create_repo_and_upload_project eng repo_info) = []
      \<or> (\<exists>name description private org.
            called (create_repo_and_upload_project eng repo_info)
              = [CreateRepoAndSync name description private ''.'' org])"
  proof (cases "length (py_split (CHR ''|'') repo_info) < 3")
    case True
    then show ?thesis
      by (simp add: create_repo_and_upload_project_def tool_called
          create_repo_and_upload_project_body_def ret_def)
  next
    case False
    then have "3 \<le> length (py_split (CHR ''|'') repo_info)"
      by simp
    then show ?thesis
      using create_tools_called(2) by blast
  qed
  show "called (main eng (CreateAndSync name' d pub pg org' (Some path)))
         = [CreateRepoAndSync name' (with_default [] d) (private_attr pub pg) path org']"
    by (simp add: main_def cmd_create_and_sync_called with_default_def)
next
  assume "py_split (CHR ''/'') repository = [owner', repo']"
  then show "called (main eng (Sync repository (Some path) branch'))
         = [SyncProjectToRepo owner' repo' path (with_default ''main'' branch')]"
    by (simp add: main_def cmd_sync_project_called with_default_def)
qed

theorem agent_local_path_is_dot_witness:
  "called (sync_project_to_github working_engine ''octocat/demo|dev'')
      = [SyncProjectToRepo ''octocat'' ''demo'' ''.'' ''dev'']
   \<and> called (create_repo_and_upload_project working_engine ''demo|A demo|false|/srv/app'')
      = [CreateRepoAndSync ''demo'' ''A demo'' False ''.'' (Some ''/srv/app'')]
   \<and> py_split (CHR ''/'') ''octocat/demo'' = [''octocat'', ''demo'']
   \<and> called (main working_engine (Sync ''octocat/demo'' (Some ''/srv/app'') (Some ''dev'')))
      = [SyncProjectToRepo ''octocat'' ''demo'' ''/srv/app'' ''dev'']
   \<and> called (main working_engine (CreateAndSync ''demo'' None True False None (Some ''/srv/app'')))
      = [CreateRepoAndSync ''demo'' [] False ''/srv/app'' None]"
  using agent_local_path_is_dot [of working_engine "''octocat/demo|dev''" "''octocat/demo''"
      "''octocat''" "''demo''" "''/srv/app''" "Some ''dev''" "''demo''" None True False None]
    agent_local_path_is_dot [of working_engine "''demo|A demo|false|/srv/app''" "''octocat/demo''"
      "''octocat''" "''demo''" "''/srv/app''" "Some ''dev''" "''demo''" None True False None]
  by (simp add: sync_tool_called create_tools_called main_def cmd_sync_project_called
      cmd_create_and_sync_called with_default_def private_attr_def py_strip_def py_lower_def
      isspace_def lower_char_def)

end
